theory Spec2Isabelle
  imports Main
begin

section \<open>JavaScript values and string helpers\<close>

text \<open>
  The middleware reads header and cookie values that are either missing (\<open>undefined\<close>),
  \<open>false\<close> (the cookie parser's mark for a signed cookie whose signature did not verify)
  or a string. \<open>JNull\<close> is the initial value of the local variable \<open>token\<close>.
\<close>

datatype jsval = JNull | JUndefined | JFalse | JStr string

fun truthy :: "jsval \<Rightarrow> bool" where
  "truthy (JStr s) = (s \<noteq> [])"
| "truthy JNull = False"
| "truthy JUndefined = False"
| "truthy JFalse = False"

text \<open>\<open>a || b\<close> on JavaScript values.\<close>

definition js_or :: "jsval \<Rightarrow> jsval \<Rightarrow> jsval" where
  "js_or a b = (if truthy a then a else b)"

text \<open>\<open>String.prototype.startsWith\<close>.\<close>

definition startsWith :: "string \<Rightarrow> string \<Rightarrow> bool" where
  "startsWith s p = (take (length p) s = p)"

text \<open>\<open>String.prototype.split\<close> with a one-character separator.\<close>

fun split_on :: "char \<Rightarrow> string \<Rightarrow> string list" where
  "split_on c [] = [[]]"
| "split_on c (x # xs) =
     (if x = c then [] # split_on c xs
      else (case split_on c xs of
              [] \<Rightarrow> [[x]]
            | w # ws \<Rightarrow> (x # w) # ws))"

text \<open>Array indexing: an index past the end reads \<open>undefined\<close>.\<close>

definition js_index :: "string list \<Rightarrow> nat \<Rightarrow> jsval" where
  "js_index xs i = (if i < length xs then JStr (xs ! i) else JUndefined)"

section \<open>Requests\<close>

text \<open>\<open>AppError(message, statusCode)\<close> of errorHandler.js.\<close>

datatype AppError = AppError (message: string) (statusCode: nat)

datatype account_status = ACTIVE | INACTIVE | SUSPENDED | PENDING

record role_doc =
  name :: string
  permissions :: "string list"
  isActive :: bool

text \<open>
  A user document as the middleware sees it after \<open>populate\<close>: \<open>role\<close> is \<open>None\<close> when the
  referenced role document no longer exists; \<open>passwordChangedAt\<close> is a date in milliseconds.
\<close>

record user_doc =
  uid :: string
  password :: string
  accountStatus :: account_status
  role :: "role_doc option"
  passwordChangedAt :: "int option"

text \<open>
  The parts of an Express request the middleware reads: \<open>req.headers.authorization\<close>,
  \<open>req.signedCookies?.jwt\<close>, \<open>req.cookies?.jwt\<close> (a missing cookie jar reads
  \<open>undefined\<close> like a missing cookie), \<open>req.user\<close>, \<open>req.body.roleName\<close> and
  \<open>req.body.role\<close>.
\<close>

record request =
  authorization :: "string option"
  signedCookies_jwt :: jsval
  cookies_jwt :: jsval
  user :: "user_doc option"
  body_roleName :: jsval
  body_role :: jsval

section \<open>Token extraction (auth.js)\<close>

text \<open>\<open>req.headers.authorization?.startsWith('Bearer ')\<close>.\<close>

definition bearer :: "request \<Rightarrow> bool" where
  "bearer req = (case authorization req of
                   None \<Rightarrow> False
                 | Some h \<Rightarrow> startsWith h ''Bearer '')"

definition extractToken :: "request \<Rightarrow> jsval" where
  "extractToken req =
     (case (if bearer req then authorization req else None) of
        Some h \<Rightarrow> js_index (split_on CHR '' '' h) 1
      | None \<Rightarrow>
          if truthy (signedCookies_jwt req) then signedCookies_jwt req
          else if truthy (cookies_jwt req) then cookies_jwt req
          else JNull)"

section \<open>Role based access control (rbac.js)\<close>

text \<open>\<open>Array.prototype.join\<close>.\<close>

fun join :: "string \<Rightarrow> string list \<Rightarrow> string" where
  "join sep [] = []"
| "join sep [x] = x"
| "join sep (x # y # ys) = x @ sep @ join sep (y # ys)"

text \<open>The string carried by a truthy value.\<close>

fun str_of :: "jsval \<Rightarrow> string" where
  "str_of (JStr s) = s"
| "str_of JNull = []"
| "str_of JUndefined = []"
| "str_of JFalse = []"

text \<open>Higher level = more authority. A name outside the table reads \<open>undefined\<close>.\<close>

definition ROLE_HIERARCHY :: "string \<Rightarrow> nat option" where
  "ROLE_HIERARCHY = map_of
     [(''HOUSEKEEPING'', 0), (''RECEPTIONIST'', 1), (''MANAGER'', 2), (''ADMIN'', 3)]"

definition DEFAULT_ROLE_PERMISSIONS :: "string \<Rightarrow> string list option" where
  "DEFAULT_ROLE_PERMISSIONS = map_of
     [(''ADMIN'',
         [''manage_users'', ''manage_roles'', ''manage_rooms'', ''manage_reservations'',
          ''manage_payments'', ''manage_housekeeping'', ''view_reports'', ''manage_guests'',
          ''check_in'', ''check_out'', ''assign_tasks'', ''view_audit_logs'']),
      (''MANAGER'',
         [''manage_rooms'', ''manage_reservations'', ''manage_payments'',
          ''manage_housekeeping'', ''view_reports'', ''manage_guests'', ''check_in'',
          ''check_out'', ''assign_tasks'']),
      (''RECEPTIONIST'',
         [''manage_reservations'', ''manage_guests'', ''check_in'', ''check_out'',
          ''view_reports'']),
      (''HOUSEKEEPING'', [''manage_housekeeping'', ''assign_tasks''])]"

text \<open>\<open>req.user.role?.name\<close>: \<open>None\<close> is \<open>undefined\<close>.\<close>

definition userRoleName :: "user_doc \<Rightarrow> string option" where
  "userRoleName u = (case role u of None \<Rightarrow> None | Some r \<Rightarrow> Some (name r))"

text \<open>\<open>req.user.role?.permissions || []\<close>.\<close>

definition dbPermissions :: "user_doc \<Rightarrow> string list" where
  "dbPermissions u = (case role u of None \<Rightarrow> [] | Some r \<Rightarrow> permissions r)"

text \<open>\<open>DEFAULT_ROLE_PERMISSIONS[userRoleName] || []\<close>.\<close>

definition defaultPermissions :: "user_doc \<Rightarrow> string list" where
  "defaultPermissions u =
     (case userRoleName u of
        None \<Rightarrow> []
      | Some n \<Rightarrow> (case DEFAULT_ROLE_PERMISSIONS n of None \<Rightarrow> [] | Some ps \<Rightarrow> ps))"

text \<open>\<open>new Set([...defaultPermissions, ...dbPermissions])\<close>.\<close>

definition allPermissions :: "user_doc \<Rightarrow> string set" where
  "allPermissions u = set (defaultPermissions u @ dbPermissions u)"

text \<open>
  A middleware either passes an error to \<open>next\<close> (\<open>Inl\<close>) or calls \<open>next()\<close> (\<open>Inr\<close>, with
  what it attached to the request). \<open>requirePermission\<close> attaches \<open>req.userPermissions\<close>.
\<close>

definition requirePermission :: "string list \<Rightarrow> request \<Rightarrow> AppError + string set" where
  "requirePermission requiredPermissions req =
     (case user req of
        None \<Rightarrow> Inl (AppError ''Authentication required.'' 401)
      | Some u \<Rightarrow>
          if list_all (\<lambda>perm. perm \<in> allPermissions u) requiredPermissions
          then Inr (allPermissions u)
          else Inl (AppError
                 (''Insufficient permissions. Missing: '' @
                    join '', '' (filter (\<lambda>perm. perm \<notin> allPermissions u) requiredPermissions))
                 403))"

definition requireAnyPermission :: "string list \<Rightarrow> request \<Rightarrow> AppError + string set" where
  "requireAnyPermission requiredPermissions req =
     (case user req of
        None \<Rightarrow> Inl (AppError ''Authentication required.'' 401)
      | Some u \<Rightarrow>
          if list_ex (\<lambda>perm. perm \<in> allPermissions u) requiredPermissions
          then Inr (allPermissions u)
          else Inl (AppError
                 (''You need at least one of the following permissions: '' @
                    join '', '' requiredPermissions)
                 403))"

text \<open>
  \<open>requestedLevel >= userLevel\<close>, where \<open>userLevel\<close> may be \<open>undefined\<close>: a comparison with
  \<open>undefined\<close> is false.
\<close>

definition level_ge :: "nat \<Rightarrow> nat option \<Rightarrow> bool" where
  "level_ge requestedLevel userLevel =
     (case userLevel of None \<Rightarrow> False | Some l \<Rightarrow> l \<le> requestedLevel)"

text \<open>
  \<open>preventPrivilegeEscalation\<close>. The built-in \<open>String.prototype.toUpperCase\<close> (the Unicode
  case mapping) is not part of the sources and is a parameter. The role fields of the body
  are strings when they are present (a truthy value that is not a string makes
  \<open>toUpperCase\<close> throw, which is outside this model).
\<close>

definition preventPrivilegeEscalation ::
  "(string \<Rightarrow> string) \<Rightarrow> request \<Rightarrow> AppError + unit" where
  "preventPrivilegeEscalation toUpperCase req =
     (case user req of
        None \<Rightarrow> Inl (AppError ''Authentication required.'' 401)
      | Some u \<Rightarrow>
          (let requestedRoleName = js_or (body_roleName req) (body_role req)
           in if \<not> truthy requestedRoleName then Inr ()
              else
                (let userLevel = (case userRoleName u of
                                    None \<Rightarrow> None
                                  | Some n \<Rightarrow> ROLE_HIERARCHY n);
                     requestedLevel = ROLE_HIERARCHY (toUpperCase (str_of requestedRoleName))
                 in case requestedLevel of
                      None \<Rightarrow> Inl (AppError ''Invalid role specified.'' 400)
                    | Some rl \<Rightarrow>
                        if level_ge rl userLevel
                        then Inl (AppError
                               ''You cannot assign a role equal to or higher than your own.''
                               403)
                        else Inr ())))"

section \<open>User model hooks (User.js)\<close>

text \<open>
  \<open>parseInt(t / d, 10)\<close> for an integer \<open>t\<close> and a positive \<open>d\<close>: the quotient with its
  fraction cut off, towards zero.
\<close>

definition parseInt_div :: "int \<Rightarrow> int \<Rightarrow> int" where
  "parseInt_div t d = (if 0 \<le> t then t div d else - ((- t) div d))"

datatype bcrypt_error = BcryptError

text \<open>
  The \<open>pre('save')\<close> hook. \<open>hash\<close> is \<open>bcrypt.hash(_, 12)\<close>, \<open>now\<close> is \<open>Date.now()\<close>,
  the two flags are \<open>this.isModified('password')\<close> and \<open>this.isNew\<close>. \<open>Inl\<close> is
  \<open>next(error)\<close>.
\<close>

definition pre_save ::
  "(string \<Rightarrow> bcrypt_error + string) \<Rightarrow> int \<Rightarrow> bool \<Rightarrow> bool \<Rightarrow> user_doc
     \<Rightarrow> bcrypt_error + user_doc" where
  "pre_save hash now isModified_password isNew this =
     (if \<not> isModified_password then Inr this
      else (case hash (password this) of
              Inl e \<Rightarrow> Inl e
            | Inr h \<Rightarrow>
                Inr (if \<not> isNew
                     then this\<lparr>password := h, passwordChangedAt := Some (now - 1000)\<rparr>
                     else this\<lparr>password := h\<rparr>)))"

definition changedPasswordAfter :: "user_doc \<Rightarrow> int \<Rightarrow> bool" where
  "changedPasswordAfter this JWTTimestamp =
     (case passwordChangedAt this of
        Some t \<Rightarrow> JWTTimestamp < parseInt_div t 1000
      | None \<Rightarrow> False)"

section \<open>Revocation lookup (auth.js)\<close>

datatype redis_error = RedisError

text \<open>
  \<open>redisClient\<close> may be \<open>undefined\<close> (\<open>None\<close>). \<open>get\<close> either answers with the stored
  value (\<open>null\<close> is \<open>None\<close>) or rejects.
\<close>

record redis_client =
  isOpen :: bool
  get :: "string \<Rightarrow> redis_error + string option"

definition isTokenBlacklisted :: "redis_client option \<Rightarrow> string set \<Rightarrow> string \<Rightarrow> bool" where
  "isTokenBlacklisted redisClient tokenBlacklist jti =
     (case redisClient of
        None \<Rightarrow> jti \<in> tokenBlacklist
      | Some c \<Rightarrow>
          if isOpen c
          then (case get c (''blacklist:'' @ jti) of
                  Inr result \<Rightarrow> result \<noteq> None
                | Inl e \<Rightarrow> jti \<in> tokenBlacklist)
          else jti \<in> tokenBlacklist)"

section \<open>Signed credentials\<close>

record jwt_payload =
  jwt_id :: string
  jwt_role :: string
  jti :: "string option"
  iat :: int
  exp :: int
  iss :: string
  aud :: string

text \<open>A credential as signed content: the claims and the secret that signed them.\<close>

record signed_jwt =
  payload :: jwt_payload
  sig_key :: string

text \<open>
  The wire form of a credential is a string. \<open>encode\<close> and \<open>decode\<close> stand for the
  serialisation of the token library, \<open>ms\<close> for its parser of time spans such as \<open>15m\<close>
  (in milliseconds).
\<close>

record jwt_lib =
  encode :: "signed_jwt \<Rightarrow> string"
  decode :: "string \<Rightarrow> signed_jwt option"
  ms :: "string \<Rightarrow> int option"

datatype jwt_error = TokenExpiredError | JsonWebTokenError | NotBeforeError

datatype sign_error = SignError

text \<open>The environment variables read by auth.js; an unset variable is \<open>None\<close>.\<close>

record env =
  JWT_SECRET :: "string option"
  JWT_EXPIRES_IN :: "string option"
  JWT_ISSUER :: "string option"
  JWT_AUDIENCE :: "string option"

text \<open>\<open>process.env.X || default\<close>.\<close>

definition env_or :: "string option \<Rightarrow> string \<Rightarrow> string" where
  "env_or v d = (case v of None \<Rightarrow> d | Some s \<Rightarrow> if s = [] then d else s)"

text \<open>
  Modelled from the spec: the token library's \<open>jwt.sign\<close> is not part of the sources. An
  access credential carries subject id, role, unique identifier, issued-at, expires-at,
  issuer and audience, and is signed with the access secret; issued-at is the current time
  in whole seconds and expires-at lies the configured duration after it.
\<close>

definition jwt_content ::
  "string \<Rightarrow> string \<Rightarrow> string \<Rightarrow> string \<Rightarrow> int \<Rightarrow> string \<Rightarrow> string \<Rightarrow> int \<Rightarrow> signed_jwt" where
  "jwt_content userId r j secret span issuer audience now =
     \<lparr>payload =
        \<lparr>jwt_id = userId, jwt_role = r, jti = Some j, iat = now div 1000,
         exp = now div 1000 + span div 1000, iss = issuer, aud = audience\<rparr>,
      sig_key = secret\<rparr>"

definition jwt_sign ::
  "jwt_lib \<Rightarrow> string \<Rightarrow> string \<Rightarrow> string \<Rightarrow> string option \<Rightarrow> string \<Rightarrow> string \<Rightarrow> string
     \<Rightarrow> int \<Rightarrow> sign_error + string" where
  "jwt_sign lib userId r j secret expiresIn issuer audience now =
     (case secret of
        None \<Rightarrow> Inl SignError
      | Some k \<Rightarrow>
          if k = [] then Inl SignError
          else (case ms lib expiresIn of
                  None \<Rightarrow> Inl SignError
                | Some span \<Rightarrow>
                    Inr (encode lib (jwt_content userId r j k span issuer audience now))))"

text \<open>
  Modelled from the spec: the token library's \<open>jwt.verify\<close> is not part of the sources. It
  parses the credential and checks signature and expiry against the secret: a structural
  or signature failure is \<open>JsonWebTokenError\<close>, an expired credential is
  \<open>TokenExpiredError\<close>, and otherwise the claims are returned.
\<close>

definition jwt_verify ::
  "jwt_lib \<Rightarrow> string \<Rightarrow> string option \<Rightarrow> int \<Rightarrow> jwt_error + jwt_payload" where
  "jwt_verify lib token secret now =
     (case decode lib token of
        None \<Rightarrow> Inl JsonWebTokenError
      | Some j \<Rightarrow>
          if secret = Some (sig_key j) then
            (if exp (payload j) \<le> now div 1000 then Inl TokenExpiredError
             else Inr (payload j))
          else Inl JsonWebTokenError)"

text \<open>\<open>signToken\<close>; \<open>j\<close> is the identifier drawn by \<open>crypto.randomUUID()\<close>.\<close>

definition signToken ::
  "jwt_lib \<Rightarrow> env \<Rightarrow> string \<Rightarrow> int \<Rightarrow> string \<Rightarrow> string \<Rightarrow> sign_error + (string \<times> string)" where
  "signToken lib e j now userId r =
     (case jwt_sign lib userId r j (JWT_SECRET e)
             (env_or (JWT_EXPIRES_IN e) ''15m'')
             (env_or (JWT_ISSUER e) ''hotel-management-api'')
             (env_or (JWT_AUDIENCE e) ''hotel-management-client'') now of
        Inl err \<Rightarrow> Inl err
      | Inr token \<Rightarrow> Inr (token, j))"

section \<open>Authentication middleware (auth.js)\<close>

fun toLowerCase_status :: "account_status \<Rightarrow> string" where
  "toLowerCase_status ACTIVE = ''active''"
| "toLowerCase_status INACTIVE = ''inactive''"
| "toLowerCase_status SUSPENDED = ''suspended''"
| "toLowerCase_status PENDING = ''pending''"

text \<open>The errors that \<open>protect\<close> passes to \<open>next\<close>, under the names of the error kinds.\<close>

abbreviation NotLoggedIn :: AppError where
  "NotLoggedIn \<equiv> AppError ''You are not logged in. Please log in to get access.'' 401"

abbreviation Expired :: AppError where
  "Expired \<equiv> AppError ''Your session has expired. Please log in again.'' 401"

abbreviation InvalidCredential :: AppError where
  "InvalidCredential \<equiv> AppError ''Invalid token. Please log in again.'' 401"

abbreviation VerificationFailed :: AppError where
  "VerificationFailed \<equiv> AppError ''Token verification failed. Please log in again.'' 401"

abbreviation Revoked :: AppError where
  "Revoked \<equiv> AppError ''Token has been revoked. Please log in again.'' 401"

abbreviation NotFound :: AppError where
  "NotFound \<equiv> AppError ''The user belonging to this token no longer exists.'' 401"

abbreviation AccountDisabled :: "account_status \<Rightarrow> AppError" where
  "AccountDisabled st \<equiv>
     AppError (''Your account is '' @ toLowerCase_status st @
               ''. Please contact the administrator.'') 403"

abbreviation RoleDisabled :: AppError where
  "RoleDisabled \<equiv>
     AppError ''Your assigned role has been deactivated. Please contact the administrator.'' 403"

abbreviation Stale :: AppError where
  "Stale \<equiv> AppError ''Password was recently changed. Please log in again.'' 401"

abbreviation AuthenticationFailed :: AppError where
  "AuthenticationFailed \<equiv> AppError ''Authentication failed. Please try again.'' 500"

datatype db_error = DbError

text \<open>What \<open>protect\<close> attaches: \<open>req.user\<close>, \<open>req.token\<close> and the refresh hint header.\<close>

record auth_ok =
  req_user :: user_doc
  token_raw :: string
  token_decoded :: jwt_payload
  refreshHint :: bool

text \<open>
  \<open>protect\<close>. \<open>findById\<close> is \<open>User.findById\<close> with the role populated (\<open>Inl\<close> when the
  query rejects, which the outer \<open>catch\<close> turns into the 500 error); \<open>now\<close> and \<open>now'\<close>
  are the clock readings in milliseconds at verification and at the refresh hint.
  \<open>tokenAge > tokenTTL * 0.75\<close> is written without the fraction.
\<close>

definition protect ::
  "jwt_lib \<Rightarrow> env \<Rightarrow> redis_client option \<Rightarrow> string set
     \<Rightarrow> (string \<Rightarrow> db_error + user_doc option) \<Rightarrow> int \<Rightarrow> int \<Rightarrow> request
     \<Rightarrow> AppError + auth_ok" where
  "protect lib e redisClient tokenBlacklist findById now now' req =
     (let token = extractToken req
      in if \<not> truthy token then Inl NotLoggedIn
         else
           (case jwt_verify lib (str_of token) (JWT_SECRET e) now of
              Inl TokenExpiredError \<Rightarrow> Inl Expired
            | Inl JsonWebTokenError \<Rightarrow> Inl InvalidCredential
            | Inl NotBeforeError \<Rightarrow> Inl VerificationFailed
            | Inr decoded \<Rightarrow>
                if (case jti decoded of
                      None \<Rightarrow> False
                    | Some j \<Rightarrow> j \<noteq> [] \<and> isTokenBlacklisted redisClient tokenBlacklist j)
                then Inl Revoked
                else
                  (case findById (jwt_id decoded) of
                     Inl err \<Rightarrow> Inl AuthenticationFailed
                   | Inr None \<Rightarrow> Inl NotFound
                   | Inr (Some currentUser) \<Rightarrow>
                       if accountStatus currentUser \<noteq> ACTIVE
                       then Inl (AccountDisabled (accountStatus currentUser))
                       else if \<not> (case role currentUser of
                                     None \<Rightarrow> False
                                   | Some r \<Rightarrow> isActive r)
                       then Inl RoleDisabled
                       else if changedPasswordAfter currentUser (iat decoded)
                       then Inl Stale
                       else Inr \<lparr>req_user = currentUser, token_raw = str_of token,
                                 token_decoded = decoded,
                                 refreshHint =
                                   (3 * (exp decoded - iat decoded)
                                      < 4 * (now' div 1000 - iat decoded))\<rparr>)))"

text \<open>
  \<open>optionalAuth\<close> always calls \<open>next()\<close>; the result is what it leaves in \<open>req.user\<close>
  (\<open>None\<close> is \<open>null\<close>).
\<close>

definition optionalAuth ::
  "jwt_lib \<Rightarrow> env \<Rightarrow> (string \<Rightarrow> db_error + user_doc option) \<Rightarrow> int \<Rightarrow> request
     \<Rightarrow> AppError + user_doc option" where
  "optionalAuth lib e findById now req =
     (let token = extractToken req
      in if \<not> truthy token then Inr None
         else
           (case jwt_verify lib (str_of token) (JWT_SECRET e) now of
              Inl err \<Rightarrow> Inr None
            | Inr decoded \<Rightarrow>
                (case findById (jwt_id decoded) of
                   Inl err \<Rightarrow> Inr None
                 | Inr None \<Rightarrow> Inr None
                 | Inr (Some u) \<Rightarrow>
                     if accountStatus u = ACTIVE then Inr (Some u) else Inr None)))"

section \<open>Progressive delay (rateLimiter.js)\<close>

text \<open>The options handed to \<open>slowDown\<close>; times in milliseconds.\<close>

record slowdown_policy =
  windowMs :: nat
  delayAfter :: nat
  delayMs :: "nat \<Rightarrow> int"
  maxDelayMs :: int

definition speedLimiter :: slowdown_policy where
  "speedLimiter =
     \<lparr>windowMs = 15 * 60 * 1000, delayAfter = 30,
      delayMs = (\<lambda>hits. int hits * 100), maxDelayMs = 5000\<rparr>"

definition authSpeedLimiter :: slowdown_policy where
  "authSpeedLimiter =
     \<lparr>windowMs = 15 * 60 * 1000, delayAfter = 2,
      delayMs = (\<lambda>hits. int hits * 500), maxDelayMs = 10000\<rparr>"

text \<open>
  Modelled from the spec: the \<open>slowDown\<close> middleware that turns these options into a delay
  is not part of the sources. A hit count up to the threshold adds no delay; past the
  threshold the policy's computed delay is inserted, capped at the maximum delay.
\<close>

definition slowDown_delay :: "slowdown_policy \<Rightarrow> nat \<Rightarrow> int" where
  "slowDown_delay p hits =
     (if hits \<le> delayAfter p then 0 else min (delayMs p hits) (maxDelayMs p))"

section \<open>Sample data for the worked instances\<close>

definition sample_role :: role_doc where
  "sample_role = \<lparr>name = ''MANAGER'', permissions = [''view_audit_logs''], isActive = True\<rparr>"

definition sample_user :: user_doc where
  "sample_user =
     \<lparr>uid = ''u1'', password = ''hash0'', accountStatus = ACTIVE, role = Some sample_role,
      passwordChangedAt = None\<rparr>"

definition sample_env :: env where
  "sample_env =
     \<lparr>JWT_SECRET = Some ''s3cret'', JWT_EXPIRES_IN = None, JWT_ISSUER = None,
      JWT_AUDIENCE = None\<rparr>"

text \<open>The credential issued to \<open>u1\<close> at time 5000 ms with identifier \<open>j1\<close>.\<close>

definition sample_jwt :: signed_jwt where
  "sample_jwt =
     jwt_content ''u1'' ''MANAGER'' ''j1'' ''s3cret'' 900000 ''hotel-management-api''
       ''hotel-management-client'' 5000"

definition sample_lib :: jwt_lib where
  "sample_lib =
     \<lparr>encode = (\<lambda>c. jwt_id (payload c) @ ''.'' @ sig_key c),
      decode = (\<lambda>t. if t = ''u1.s3cret'' then Some sample_jwt else None),
      ms = (\<lambda>t. if t = ''15m'' then Some 900000 else None)\<rparr>"

definition sample_db :: "user_doc option \<Rightarrow> string \<Rightarrow> db_error + user_doc option" where
  "sample_db u i = (if i = ''u1'' then Inr u else Inr None)"

definition sample_request :: request where
  "sample_request =
     \<lparr>authorization = Some ''Bearer u1.s3cret'', signedCookies_jwt = JStr ''signed'',
      cookies_jwt = JStr ''plain'', user = None, body_roleName = JUndefined,
      body_role = JUndefined\<rparr>"

text \<open>A store connection that is open and whose every lookup rejects.\<close>

definition failing_redis :: redis_client where
  "failing_redis = \<lparr>isOpen = True, get = (\<lambda>k. Inl RedisError)\<rparr>"

text \<open>
  The upper-casing of a string of ASCII characters, where the case mapping changes the
  letters \<open>a\<close> to \<open>z\<close> and nothing else; the worked instances call the guard with it on
  ASCII role names.
\<close>

definition toUpperCase_ascii_char :: "char \<Rightarrow> char" where
  "toUpperCase_ascii_char c =
     (case map_of (zip ''abcdefghijklmnopqrstuvwxyz'' ''ABCDEFGHIJKLMNOPQRSTUVWXYZ'') c of
        None \<Rightarrow> c
      | Some C \<Rightarrow> C)"

definition toUpperCase_ascii :: "string \<Rightarrow> string" where
  "toUpperCase_ascii s = map toUpperCase_ascii_char s"

text \<open>A request by the user \<open>u1\<close> holding the role \<open>actor\<close> that names the role \<open>requested\<close>.\<close>

definition assign_request :: "string \<Rightarrow> jsval \<Rightarrow> request" where
  "assign_request actor requested =
     \<lparr>authorization = None, signedCookies_jwt = JUndefined, cookies_jwt = JUndefined,
      user = Some (sample_user\<lparr>role := Some (sample_role\<lparr>name := actor\<rparr>)\<rparr>),
      body_roleName = JUndefined, body_role = requested\<rparr>"

section \<open>Token extraction: priority of the sources\<close>

lemma split_on_nonempty: "split_on c s \<noteq> []"
  by (induction s) (auto split: list.splits)

lemma hd_split_on: "hd (split_on c s) = takeWhile (\<lambda>x. x \<noteq> c) s"
  by (induction s) (auto split: list.splits simp: split_on_nonempty)

lemma split_on_append:
  "c \<notin> set p \<Longrightarrow> split_on c (p @ c # rest) = p # split_on c rest"
  by (induction p) (auto split: list.splits)

lemma split_bearer:
  assumes "startsWith h ''Bearer ''"
  shows "js_index (split_on CHR '' '' h) (Suc 0) =
           JStr (takeWhile (\<lambda>x. x \<noteq> CHR '' '') (drop 7 h))"
proof -
  have "take 7 h @ drop 7 h = h" by (rule append_take_drop_id)
  moreover from assms have "take 7 h = ''Bearer ''"
    unfolding startsWith_def by (simp add: eval_nat_numeral)
  ultimately have h: "h = ''Bearer'' @ CHR '' '' # drop 7 h"
    by (metis append_Cons append_Nil)
  have "split_on CHR '' '' (''Bearer'' @ CHR '' '' # drop 7 h) =
          ''Bearer'' # split_on CHR '' '' (drop 7 h)"
    by (rule split_on_append) simp
  with h have s: "split_on CHR '' '' h = ''Bearer'' # split_on CHR '' '' (drop 7 h)"
    by simp
  obtain w ws where ws: "split_on CHR '' '' (drop 7 h) = w # ws"
    using split_on_nonempty [of "CHR '' ''" "drop 7 h"]
    by (cases "split_on CHR '' '' (drop 7 h)") auto
  have "w = takeWhile (\<lambda>x. x \<noteq> CHR '' '') (drop 7 h)"
    using hd_split_on [of "CHR '' ''" "drop 7 h"] ws by simp
  then show ?thesis
    unfolding js_index_def s ws by simp
qed

text \<open>
  C9. Token extraction follows a strict priority. When the Authorization header starts with
  \<open>Bearer \<close>, the token is the second space-separated piece of the header (the text
  between the first space and the next one), whatever the cookies hold. Otherwise a signed
  cookie \<open>jwt\<close> that is present (a non-empty string) is used; otherwise an unsigned cookie
  \<open>jwt\<close> that is present is used; otherwise the result is \<open>null\<close>.
\<close>

theorem extractToken_priority:
  "(bearer req \<and> authorization req = Some h \<longrightarrow>
      extractToken req = JStr (takeWhile (\<lambda>x. x \<noteq> CHR '' '') (drop 7 h)))
   \<and> (\<not> bearer req \<and> truthy (signedCookies_jwt req) \<longrightarrow>
        extractToken req = signedCookies_jwt req)
   \<and> (\<not> bearer req \<and> \<not> truthy (signedCookies_jwt req) \<and> truthy (cookies_jwt req) \<longrightarrow>
        extractToken req = cookies_jwt req)
   \<and> (\<not> bearer req \<and> \<not> truthy (signedCookies_jwt req) \<and> \<not> truthy (cookies_jwt req) \<longrightarrow>
        extractToken req = JNull)"
proof -
  have "extractToken req = JStr (takeWhile (\<lambda>x. x \<noteq> CHR '' '') (drop 7 h))"
    if b: "bearer req" and h: "authorization req = Some h"
  proof -
    from b h have "startsWith h ''Bearer ''"
      by (simp add: bearer_def)
    with b h show ?thesis
      by (simp add: extractToken_def split_bearer)
  qed
  then show ?thesis
    by (simp add: extractToken_def)
qed

theorem extractToken_priority_witness:
  "extractToken sample_request = JStr ''u1.s3cret''
   \<and> extractToken (sample_request\<lparr>authorization := Some ''Basic abc''\<rparr>) = JStr ''signed''
   \<and> extractToken (sample_request\<lparr>authorization := None, signedCookies_jwt := JFalse\<rparr>)
       = JStr ''plain''
   \<and> extractToken (sample_request\<lparr>authorization := None, signedCookies_jwt := JUndefined,
                                   cookies_jwt := JUndefined\<rparr>) = JNull"
  using extractToken_priority [of sample_request "''Bearer u1.s3cret''"]
    extractToken_priority [of "sample_request\<lparr>authorization := Some ''Basic abc''\<rparr>"]
    extractToken_priority
      [of "sample_request\<lparr>authorization := None, signedCookies_jwt := JFalse\<rparr>"]
    extractToken_priority
      [of "sample_request\<lparr>authorization := None, signedCookies_jwt := JUndefined,
                            cookies_jwt := JUndefined\<rparr>"]
  by (simp add: sample_request_def bearer_def startsWith_def)

section \<open>Privilege escalation guard\<close>



text \<open>
  C10, as stated, fails for a request that carries no authenticated user: with neither role
  field in the body it is still rejected, with the 401 error.
\<close>

theorem preventPrivilegeEscalation_unauthenticated_counterexample:
  "preventPrivilegeEscalation toUpperCase_ascii
     (sample_request\<lparr>user := None, body_roleName := JUndefined, body_role := JUndefined\<rparr>)
     = Inl (AppError ''Authentication required.'' 401)"
  by (simp add: preventPrivilegeEscalation_def)

text \<open>
  C10, amended. For every request that carries an authenticated user and whose body has
  neither a \<open>roleName\<close> nor a \<open>role\<close> field (or only empty ones),
  \<open>preventPrivilegeEscalation\<close> admits the request whatever the user's role is, so no
  authority comparison takes place; a request without an authenticated user is rejected with
  the 401 error before the body is looked at.
\<close>

theorem preventPrivilegeEscalation_no_role_field:
  "(user req = Some u \<and> \<not> truthy (body_roleName req) \<and> \<not> truthy (body_role req)
      \<longrightarrow> preventPrivilegeEscalation toUpperCase req = Inr ())
   \<and> (user req = None
      \<longrightarrow> preventPrivilegeEscalation toUpperCase req
            = Inl (AppError ''Authentication required.'' 401))"
  by (simp add: preventPrivilegeEscalation_def js_or_def)

theorem preventPrivilegeEscalation_no_role_field_witness:
  "preventPrivilegeEscalation toUpperCase_ascii (assign_request ''HOUSEKEEPING'' JUndefined)
     = Inr ()
   \<and> preventPrivilegeEscalation toUpperCase_ascii
       ((assign_request ''HOUSEKEEPING'' JUndefined)\<lparr>user := None\<rparr>)
       = Inl (AppError ''Authentication required.'' 401)"
  using preventPrivilegeEscalation_no_role_field
      [of "assign_request ''HOUSEKEEPING'' JUndefined"
          "sample_user\<lparr>role := Some (sample_role\<lparr>name := ''HOUSEKEEPING''\<rparr>)\<rparr>"
          toUpperCase_ascii]
    preventPrivilegeEscalation_no_role_field
      [of "(assign_request ''HOUSEKEEPING'' JUndefined)\<lparr>user := None\<rparr>" _ toUpperCase_ascii]
  by (simp add: assign_request_def)

section \<open>Resolved permission set\<close>

text \<open>
  C7. For every role record, the permission set that \<open>requirePermission\<close> and
  \<open>requireAnyPermission\<close> decide on is the union of the row of the static table
  \<open>DEFAULT_ROLE_PERMISSIONS\<close> for the role's name and the permissions stored on the role
  record; so every default permission of the role's name is in it whatever is stored. The
  ALL-mode check passes, attaching that union, exactly when every required permission is
  in it, and the ANY-mode check exactly when at least one is; otherwise they answer with an
  error. A role name without a row contributes no defaults. The rows of the table are the
  ones of the source.
\<close>

theorem allPermissions_union:
  "(role u = Some r \<and> DEFAULT_ROLE_PERMISSIONS (name r) = Some defaults \<longrightarrow>
      allPermissions u = set defaults \<union> set (permissions r)
      \<and> set defaults \<subseteq> allPermissions u
      \<and> (user req = Some u \<longrightarrow>
           (requirePermission required req = Inr (set defaults \<union> set (permissions r)))
             = (set required \<subseteq> set defaults \<union> set (permissions r))
           \<and> isl (requirePermission required req)
             = (\<not> set required \<subseteq> set defaults \<union> set (permissions r))
           \<and> (requireAnyPermission required req = Inr (set defaults \<union> set (permissions r)))
             = (set required \<inter> (set defaults \<union> set (permissions r)) \<noteq> {})
           \<and> isl (requireAnyPermission required req)
             = (set required \<inter> (set defaults \<union> set (permissions r)) = {})))
   \<and> (role u = Some r \<and> DEFAULT_ROLE_PERMISSIONS (name r) = None \<longrightarrow>
        allPermissions u = set (permissions r))
   \<and> DEFAULT_ROLE_PERMISSIONS ''ADMIN'' =
        Some [''manage_users'', ''manage_roles'', ''manage_rooms'', ''manage_reservations'',
              ''manage_payments'', ''manage_housekeeping'', ''view_reports'',
              ''manage_guests'', ''check_in'', ''check_out'', ''assign_tasks'',
              ''view_audit_logs'']
   \<and> DEFAULT_ROLE_PERMISSIONS ''MANAGER'' =
        Some [''manage_rooms'', ''manage_reservations'', ''manage_payments'',
              ''manage_housekeeping'', ''view_reports'', ''manage_guests'', ''check_in'',
              ''check_out'', ''assign_tasks'']
   \<and> DEFAULT_ROLE_PERMISSIONS ''RECEPTIONIST'' =
        Some [''manage_reservations'', ''manage_guests'', ''check_in'', ''check_out'',
              ''view_reports'']
   \<and> DEFAULT_ROLE_PERMISSIONS ''HOUSEKEEPING'' = Some [''manage_housekeeping'', ''assign_tasks'']"
proof -
  have u: "allPermissions u = set defaults \<union> set (permissions r)"
    if "role u = Some r" and "DEFAULT_ROLE_PERMISSIONS (name r) = Some defaults"
    using that
    by (simp add: allPermissions_def defaultPermissions_def dbPermissions_def userRoleName_def)
  have n: "allPermissions u = set (permissions r)"
    if "role u = Some r" and "DEFAULT_ROLE_PERMISSIONS (name r) = None"
    using that
    by (simp add: allPermissions_def defaultPermissions_def dbPermissions_def userRoleName_def)
  have all_ok: "(requirePermission required req = Inr (allPermissions u))
                  = (set required \<subseteq> allPermissions u)"
    and all_err: "isl (requirePermission required req) = (\<not> set required \<subseteq> allPermissions u)"
    and any_ok: "(requireAnyPermission required req = Inr (allPermissions u))
                  = (set required \<inter> allPermissions u \<noteq> {})"
    and any_err: "isl (requireAnyPermission required req)
                  = (set required \<inter> allPermissions u = {})"
    if "user req = Some u"
    using that
    by (auto simp: requirePermission_def requireAnyPermission_def list_all_iff list_ex_iff)
  have rows:
    "DEFAULT_ROLE_PERMISSIONS ''ADMIN'' =
        Some [''manage_users'', ''manage_roles'', ''manage_rooms'', ''manage_reservations'',
              ''manage_payments'', ''manage_housekeeping'', ''view_reports'',
              ''manage_guests'', ''check_in'', ''check_out'', ''assign_tasks'',
              ''view_audit_logs'']"
    "DEFAULT_ROLE_PERMISSIONS ''MANAGER'' =
        Some [''manage_rooms'', ''manage_reservations'', ''manage_payments'',
              ''manage_housekeeping'', ''view_reports'', ''manage_guests'', ''check_in'',
              ''check_out'', ''assign_tasks'']"
    "DEFAULT_ROLE_PERMISSIONS ''RECEPTIONIST'' =
        Some [''manage_reservations'', ''manage_guests'', ''check_in'', ''check_out'',
              ''view_reports'']"
    "DEFAULT_ROLE_PERMISSIONS ''HOUSEKEEPING'' = Some [''manage_housekeeping'', ''assign_tasks'']"
    by (simp_all add: DEFAULT_ROLE_PERMISSIONS_def)
  show ?thesis
    using u n all_ok all_err any_ok any_err rows by (metis Un_upper1)
qed

theorem allPermissions_union_witness:
  "allPermissions sample_user =
     set [''manage_rooms'', ''manage_reservations'', ''manage_payments'',
          ''manage_housekeeping'', ''view_reports'', ''manage_guests'', ''check_in'',
          ''check_out'', ''assign_tasks'']
     \<union> set [''view_audit_logs'']
   \<and> requirePermission [''view_audit_logs'', ''check_in'']
        (assign_request ''MANAGER'' JUndefined) = Inr (allPermissions sample_user)
   \<and> requireAnyPermission [''manage_users'', ''check_out'']
        (assign_request ''MANAGER'' JUndefined) = Inr (allPermissions sample_user)
   \<and> isl (requirePermission [''manage_users''] (assign_request ''MANAGER'' JUndefined))
   \<and> allPermissions (sample_user\<lparr>role := Some (sample_role\<lparr>name := ''GUEST''\<rparr>)\<rparr>)
       = set [''view_audit_logs'']"
proof -
  have r: "role sample_user = Some sample_role" "name sample_role = ''MANAGER''"
    "permissions sample_role = [''view_audit_logs'']"
    by (simp_all add: sample_user_def sample_role_def)
  have d: "DEFAULT_ROLE_PERMISSIONS (name sample_role) =
     Some [''manage_rooms'', ''manage_reservations'', ''manage_payments'',
          ''manage_housekeeping'', ''view_reports'', ''manage_guests'', ''check_in'',
          ''check_out'', ''assign_tasks'']"
    by (simp add: sample_role_def DEFAULT_ROLE_PERMISSIONS_def)
  have u: "user (assign_request ''MANAGER'' JUndefined) = Some sample_user"
    by (simp add: assign_request_def sample_user_def sample_role_def)
  have g: "DEFAULT_ROLE_PERMISSIONS (name (sample_role\<lparr>name := ''GUEST''\<rparr>)) = None"
    by (simp add: DEFAULT_ROLE_PERMISSIONS_def)
  note t = allPermissions_union
    [where u = sample_user and r = sample_role and req = "assign_request ''MANAGER'' JUndefined"
       and defaults = "[''manage_rooms'', ''manage_reservations'', ''manage_payments'',
          ''manage_housekeeping'', ''view_reports'', ''manage_guests'', ''check_in'',
          ''check_out'', ''assign_tasks'']"]
  have 1: "allPermissions sample_user =
     set [''manage_rooms'', ''manage_reservations'', ''manage_payments'',
          ''manage_housekeeping'', ''view_reports'', ''manage_guests'', ''check_in'',
          ''check_out'', ''assign_tasks'']
     \<union> set [''view_audit_logs'']"
    using t [where required = "[]"] r(1) d unfolding r(3) by blast
  have 2: "requirePermission [''view_audit_logs'', ''check_in'']
        (assign_request ''MANAGER'' JUndefined) = Inr (allPermissions sample_user)"
    using t [where required = "[''view_audit_logs'', ''check_in'']"] r(1) d u
    unfolding r(3) 1 by simp
  have 3: "requireAnyPermission [''manage_users'', ''check_out'']
        (assign_request ''MANAGER'' JUndefined) = Inr (allPermissions sample_user)"
    using t [where required = "[''manage_users'', ''check_out'']"] r(1) d u
    unfolding r(3) 1 by simp
  have 4: "isl (requirePermission [''manage_users''] (assign_request ''MANAGER'' JUndefined))"
    using t [where required = "[''manage_users'']"] r(1) d u
    unfolding r(3) by simp
  have 5: "allPermissions (sample_user\<lparr>role := Some (sample_role\<lparr>name := ''GUEST''\<rparr>)\<rparr>)
       = set [''view_audit_logs'']"
    using allPermissions_union
      [where u = "sample_user\<lparr>role := Some (sample_role\<lparr>name := ''GUEST''\<rparr>)\<rparr>"
         and r = "sample_role\<lparr>name := ''GUEST''\<rparr>" and req = sample_request
         and required = "[]" and defaults = "[]"] g
    by (simp add: sample_role_def)
  from 1 2 3 4 5 show ?thesis by blast
qed

section \<open>Progressive delay\<close>

text \<open>
  C8. For the general speed limiter and for the authentication speed limiter, the delay is
  zero for every hit count at or below the policy's threshold, it never decreases when the
  hit count grows, and it never exceeds the policy's maximum delay, which is 5000 ms for
  the general and 10000 ms for the authentication speed limiter. The delay is a function of
  the policy and the hit count of the key alone.
\<close>

theorem slowDown_delay_bounds:
  "(hits \<le> delayAfter speedLimiter \<longrightarrow> slowDown_delay speedLimiter hits = 0)
   \<and> (m \<le> n \<longrightarrow> slowDown_delay speedLimiter m \<le> slowDown_delay speedLimiter n)
   \<and> slowDown_delay speedLimiter hits \<le> maxDelayMs speedLimiter
   \<and> maxDelayMs speedLimiter = 5000
   \<and> (hits \<le> delayAfter authSpeedLimiter \<longrightarrow> slowDown_delay authSpeedLimiter hits = 0)
   \<and> (m \<le> n \<longrightarrow> slowDown_delay authSpeedLimiter m \<le> slowDown_delay authSpeedLimiter n)
   \<and> slowDown_delay authSpeedLimiter hits \<le> maxDelayMs authSpeedLimiter
   \<and> maxDelayMs authSpeedLimiter = 10000"
proof -
  have "slowDown_delay speedLimiter m \<le> slowDown_delay speedLimiter n" if "m \<le> n"
    using that by (auto simp: slowDown_delay_def speedLimiter_def min_def)
  moreover
  have "slowDown_delay authSpeedLimiter m \<le> slowDown_delay authSpeedLimiter n" if "m \<le> n"
    using that by (auto simp: slowDown_delay_def authSpeedLimiter_def min_def)
  moreover have "slowDown_delay speedLimiter hits \<le> maxDelayMs speedLimiter"
    by (simp add: slowDown_delay_def speedLimiter_def)
  moreover have "slowDown_delay authSpeedLimiter hits \<le> maxDelayMs authSpeedLimiter"
    by (simp add: slowDown_delay_def authSpeedLimiter_def)
  ultimately show ?thesis
    by (simp add: slowDown_delay_def speedLimiter_def authSpeedLimiter_def)
qed

theorem slowDown_delay_bounds_witness:
  "slowDown_delay speedLimiter 30 = 0
   \<and> slowDown_delay speedLimiter 31 = 3100
   \<and> slowDown_delay speedLimiter 31 \<le> slowDown_delay speedLimiter 60
   \<and> slowDown_delay speedLimiter 60 = 5000
   \<and> slowDown_delay authSpeedLimiter 2 = 0
   \<and> slowDown_delay authSpeedLimiter 3 = 1500
   \<and> slowDown_delay authSpeedLimiter 3 \<le> slowDown_delay authSpeedLimiter 25
   \<and> slowDown_delay authSpeedLimiter 25 = 10000"
  using slowDown_delay_bounds [of 30 31 60] slowDown_delay_bounds [of 2 3 25]
  by (simp add: slowDown_delay_def speedLimiter_def authSpeedLimiter_def)

section \<open>Verification: the order of the checks\<close>

text \<open>
  Once a token was extracted and its signature and expiry were verified, \<open>protect\<close> is the
  chain of the remaining checks.
\<close>

lemma protect_verified:
  assumes "truthy (extractToken req)"
    and "jwt_verify lib (str_of (extractToken req)) (JWT_SECRET e) now = Inr d"
  shows "protect lib e redisClient tokenBlacklist findById now now' req =
     (if (case jti d of
            None \<Rightarrow> False
          | Some j \<Rightarrow> j \<noteq> [] \<and> isTokenBlacklisted redisClient tokenBlacklist j)
      then Inl Revoked
      else
        (case findById (jwt_id d) of
           Inl err \<Rightarrow> Inl AuthenticationFailed
         | Inr None \<Rightarrow> Inl NotFound
         | Inr (Some currentUser) \<Rightarrow>
             if accountStatus currentUser \<noteq> ACTIVE
             then Inl (AccountDisabled (accountStatus currentUser))
             else if \<not> (case role currentUser of None \<Rightarrow> False | Some r \<Rightarrow> isActive r)
             then Inl RoleDisabled
             else if changedPasswordAfter currentUser (iat d)
             then Inl Stale
             else Inr \<lparr>req_user = currentUser, token_raw = str_of (extractToken req),
                       token_decoded = d,
                       refreshHint = (3 * (exp d - iat d) < 4 * (now' div 1000 - iat d))\<rparr>))"
  using assms by (simp add: protect_def Let_def)

text \<open>
  C3. For a credential that passed the signature and expiry checks, \<open>protect\<close> checks in
  this order: revocation, identity exists, account status is ACTIVE, role is active,
  issued-at not earlier than the last credential change. The error returned is the one of
  the first check that fails, whatever the later checks would say: a revoked credential
  gives Revoked even when the identity is missing or disabled, a missing identity gives
  NotFound, a disabled account gives AccountDisabled whatever its role and password date
  are, and so on; when no check fails the user and the decoded credential are attached.
  The five errors are pairwise distinct.
\<close>

theorem protect_check_order:
  fixes d :: jwt_payload
    and redisClient :: "redis_client option"
    and tokenBlacklist :: "string set"
    and lib :: jwt_lib
    and e :: env
    and findById :: "string \<Rightarrow> db_error + user_doc option"
    and now now' :: int
    and req :: request
  defines "revoked \<equiv>
     (case jti d of
        None \<Rightarrow> False
      | Some j \<Rightarrow> j \<noteq> [] \<and> isTokenBlacklisted redisClient tokenBlacklist j)"
    and "result \<equiv> protect lib e redisClient tokenBlacklist findById now now' req"
  assumes "truthy (extractToken req)"
    and "jwt_verify lib (str_of (extractToken req)) (JWT_SECRET e) now = Inr d"
  shows
    "(revoked \<longrightarrow> result = Inl Revoked)
     \<and> (\<not> revoked \<and> findById (jwt_id d) = Inr None \<longrightarrow> result = Inl NotFound)
     \<and> (\<not> revoked \<and> findById (jwt_id d) = Inr (Some u) \<and> accountStatus u \<noteq> ACTIVE
          \<longrightarrow> result = Inl (AccountDisabled (accountStatus u)))
     \<and> (\<not> revoked \<and> findById (jwt_id d) = Inr (Some u) \<and> accountStatus u = ACTIVE
          \<and> (role u = None \<or> (\<exists>r. role u = Some r \<and> \<not> isActive r))
          \<longrightarrow> result = Inl RoleDisabled)
     \<and> (\<not> revoked \<and> findById (jwt_id d) = Inr (Some u) \<and> accountStatus u = ACTIVE
          \<and> role u = Some r \<and> isActive r \<and> changedPasswordAfter u (iat d)
          \<longrightarrow> result = Inl Stale)
     \<and> (\<not> revoked \<and> findById (jwt_id d) = Inr (Some u) \<and> accountStatus u = ACTIVE
          \<and> role u = Some r \<and> isActive r \<and> \<not> changedPasswordAfter u (iat d)
          \<longrightarrow> \<not> isl result \<and> req_user (projr result) = u \<and> token_decoded (projr result) = d)
     \<and> distinct [Revoked, NotFound, AccountDisabled st, RoleDisabled, Stale]"
proof -
  have r: "result =
     (if revoked then Inl Revoked
      else
        (case findById (jwt_id d) of
           Inl err \<Rightarrow> Inl AuthenticationFailed
         | Inr None \<Rightarrow> Inl NotFound
         | Inr (Some currentUser) \<Rightarrow>
             if accountStatus currentUser \<noteq> ACTIVE
             then Inl (AccountDisabled (accountStatus currentUser))
             else if \<not> (case role currentUser of None \<Rightarrow> False | Some r \<Rightarrow> isActive r)
             then Inl RoleDisabled
             else if changedPasswordAfter currentUser (iat d)
             then Inl Stale
             else Inr \<lparr>req_user = currentUser, token_raw = str_of (extractToken req),
                       token_decoded = d,
                       refreshHint = (3 * (exp d - iat d) < 4 * (now' div 1000 - iat d))\<rparr>))"
    unfolding result_def revoked_def using assms(3,4) by (rule protect_verified)
  have "distinct [Revoked, NotFound, AccountDisabled st, RoleDisabled, Stale]"
    by simp
  moreover have "revoked \<longrightarrow> result = Inl Revoked"
    by (simp add: r)
  moreover have "\<not> revoked \<and> findById (jwt_id d) = Inr None \<longrightarrow> result = Inl NotFound"
    by (simp add: r)
  moreover have "\<not> revoked \<and> findById (jwt_id d) = Inr (Some u) \<and> accountStatus u \<noteq> ACTIVE
          \<longrightarrow> result = Inl (AccountDisabled (accountStatus u))"
    by (simp add: r)
  moreover have "\<not> revoked \<and> findById (jwt_id d) = Inr (Some u) \<and> accountStatus u = ACTIVE
          \<and> (role u = None \<or> (\<exists>r. role u = Some r \<and> \<not> isActive r))
          \<longrightarrow> result = Inl RoleDisabled"
    by (auto simp: r split: option.splits)
  moreover have "\<not> revoked \<and> findById (jwt_id d) = Inr (Some u) \<and> accountStatus u = ACTIVE
          \<and> role u = Some r \<and> isActive r \<and> changedPasswordAfter u (iat d)
          \<longrightarrow> result = Inl Stale"
    by (simp add: r)
  moreover have "\<not> revoked \<and> findById (jwt_id d) = Inr (Some u) \<and> accountStatus u = ACTIVE
          \<and> role u = Some r \<and> isActive r \<and> \<not> changedPasswordAfter u (iat d)
          \<longrightarrow> \<not> isl result \<and> req_user (projr result) = u \<and> token_decoded (projr result) = d"
    by (simp add: r)
  ultimately show ?thesis by blast
qed

text \<open>The sample request carries the sample credential, which verifies at time 6000 ms.\<close>

lemma sample_extract: "extractToken sample_request = JStr ''u1.s3cret''"
  by (simp add: extractToken_def sample_request_def bearer_def startsWith_def js_index_def)

lemma sample_verify:
  "jwt_verify sample_lib ''u1.s3cret'' (JWT_SECRET sample_env) 6000 = Inr (payload sample_jwt)"
  by (simp add: jwt_verify_def sample_lib_def sample_env_def sample_jwt_def jwt_content_def)

lemma sample_payload:
  "jti (payload sample_jwt) = Some ''j1''" "jwt_id (payload sample_jwt) = ''u1''"
  "iat (payload sample_jwt) = 5" "jwt_role (payload sample_jwt) = ''MANAGER''"
  "exp (payload sample_jwt) = 905"
  by (simp_all add: sample_jwt_def jwt_content_def)

theorem protect_check_order_witness:
  "protect sample_lib sample_env None {''j1''} (sample_db None) 6000 6000 sample_request
     = Inl Revoked
   \<and> protect sample_lib sample_env None {} (sample_db None) 6000 6000 sample_request
     = Inl NotFound
   \<and> protect sample_lib sample_env None {}
       (sample_db (Some (sample_user\<lparr>accountStatus := SUSPENDED, role := None,
                                      passwordChangedAt := Some 9000000\<rparr>)))
       6000 6000 sample_request
     = Inl (AccountDisabled SUSPENDED)
   \<and> protect sample_lib sample_env None {}
       (sample_db (Some (sample_user\<lparr>role := None, passwordChangedAt := Some 9000000\<rparr>)))
       6000 6000 sample_request
     = Inl RoleDisabled
   \<and> protect sample_lib sample_env None {}
       (sample_db (Some (sample_user\<lparr>passwordChangedAt := Some 9000000\<rparr>)))
       6000 6000 sample_request
     = Inl Stale
   \<and> \<not> isl (protect sample_lib sample_env None {} (sample_db (Some sample_user))
              6000 6000 sample_request)"
proof -
  have t: "truthy (extractToken sample_request)"
    by (simp add: sample_extract)
  have v: "jwt_verify sample_lib (str_of (extractToken sample_request)) (JWT_SECRET sample_env)
             6000 = Inr (payload sample_jwt)"
    by (simp add: sample_extract sample_verify)
  note o = protect_check_order [OF t v]
  have 1: "protect sample_lib sample_env None {''j1''} (sample_db None) 6000 6000 sample_request
     = Inl Revoked"
    using o [where redisClient = None and tokenBlacklist = "{''j1''}"
        and findById = "sample_db None" and now' = 6000]
    by (simp add: sample_payload isTokenBlacklisted_def)
  have 2: "protect sample_lib sample_env None {} (sample_db None) 6000 6000 sample_request
     = Inl NotFound"
    using o [where redisClient = None and tokenBlacklist = "{}"
        and findById = "sample_db None" and now' = 6000]
    by (simp add: sample_payload isTokenBlacklisted_def sample_db_def)
  have 3: "protect sample_lib sample_env None {}
       (sample_db (Some (sample_user\<lparr>accountStatus := SUSPENDED, role := None,
                                      passwordChangedAt := Some 9000000\<rparr>)))
       6000 6000 sample_request
     = Inl (AccountDisabled SUSPENDED)"
    using o [where redisClient = None and tokenBlacklist = "{}"
        and findById = "sample_db (Some (sample_user\<lparr>accountStatus := SUSPENDED,
                          role := None, passwordChangedAt := Some 9000000\<rparr>))"
        and u = "sample_user\<lparr>accountStatus := SUSPENDED, role := None,
                   passwordChangedAt := Some 9000000\<rparr>"
        and now' = 6000]
    by (simp add: sample_payload isTokenBlacklisted_def sample_db_def)
  have 4: "protect sample_lib sample_env None {}
       (sample_db (Some (sample_user\<lparr>role := None, passwordChangedAt := Some 9000000\<rparr>)))
       6000 6000 sample_request
     = Inl RoleDisabled"
    using o [where redisClient = None and tokenBlacklist = "{}"
        and findById = "sample_db (Some (sample_user\<lparr>role := None,
                          passwordChangedAt := Some 9000000\<rparr>))"
        and u = "sample_user\<lparr>role := None, passwordChangedAt := Some 9000000\<rparr>"
        and now' = 6000]
    by (simp add: sample_payload isTokenBlacklisted_def sample_db_def sample_user_def)
  have 5: "protect sample_lib sample_env None {}
       (sample_db (Some (sample_user\<lparr>passwordChangedAt := Some 9000000\<rparr>)))
       6000 6000 sample_request
     = Inl Stale"
    using o [where redisClient = None and tokenBlacklist = "{}"
        and findById = "sample_db (Some (sample_user\<lparr>passwordChangedAt := Some 9000000\<rparr>))"
        and u = "sample_user\<lparr>passwordChangedAt := Some 9000000\<rparr>"
        and r = sample_role and now' = 6000]
    by (simp add: sample_payload isTokenBlacklisted_def sample_db_def sample_user_def
        sample_role_def changedPasswordAfter_def parseInt_div_def)
  have 6: "\<not> isl (protect sample_lib sample_env None {} (sample_db (Some sample_user))
              6000 6000 sample_request)"
    using o [where redisClient = None and tokenBlacklist = "{}"
        and findById = "sample_db (Some sample_user)" and u = sample_user
        and r = sample_role and now' = 6000]
    by (simp add: sample_payload isTokenBlacklisted_def sample_db_def sample_user_def
        sample_role_def changedPasswordAfter_def)
  from 1 2 3 4 5 6 show ?thesis by blast
qed

section \<open>Revocation lookup when the store fails\<close>

text \<open>
  C1, as stated, fails: with the store connection open and every lookup rejecting, an
  identifier that is not in the in-process set is reported as not revoked, and \<open>protect\<close>
  admits the request that carries the credential.
\<close>

theorem isTokenBlacklisted_fail_open_counterexample:
  "\<not> isTokenBlacklisted (Some failing_redis) {} ''j1''
   \<and> \<not> isl (protect sample_lib sample_env (Some failing_redis) {}
              (sample_db (Some sample_user)) 6000 6000 sample_request)"
  by (simp add: protect_verified sample_extract sample_verify sample_payload
      isTokenBlacklisted_def failing_redis_def sample_db_def sample_user_def sample_role_def
      changedPasswordAfter_def)

text \<open>
  For a verified credential that carries a non-empty identifier, \<open>protect\<close> answers with
  the Revoked error exactly when the lookup reports the identifier as revoked.
\<close>

lemma protect_revoked_iff:
  assumes "truthy (extractToken req)"
    and "jwt_verify lib (str_of (extractToken req)) (JWT_SECRET e) now = Inr d"
    and "jti d = Some j" and "j \<noteq> []"
  shows "(protect lib e redisClient tokenBlacklist findById now now' req = Inl Revoked)
           = isTokenBlacklisted redisClient tokenBlacklist j"
  unfolding protect_verified [OF assms(1,2)]
  using assms(3,4) by (simp split: sum.splits option.splits)

text \<open>
  C1, amended. When the distributed store is absent, not open, or its lookup rejects,
  \<open>isTokenBlacklisted\<close> answers from the in-process fallback set: the identifier is
  reported revoked exactly when it is in that set, and \<open>protect\<close>, on a verified
  credential that carries this identifier and the identifier is not empty, answers with
  the Revoked error exactly then. When the store is open and answers, the identifier is
  reported revoked, and \<open>protect\<close> answers with the Revoked error, exactly when the store
  holds an entry for it.
\<close>

theorem isTokenBlacklisted_fallback:
  "((redisClient = None
      \<or> (\<exists>c. redisClient = Some c
              \<and> (\<not> isOpen c \<or> isl (get c (''blacklist:'' @ j)))))
     \<longrightarrow> isTokenBlacklisted redisClient tokenBlacklist j = (j \<in> tokenBlacklist)
         \<and> (truthy (extractToken req)
              \<and> jwt_verify lib (str_of (extractToken req)) (JWT_SECRET e) now = Inr d
              \<and> jti d = Some j \<and> j \<noteq> []
            \<longrightarrow> (protect lib e redisClient tokenBlacklist findById now now' req = Inl Revoked)
                  = (j \<in> tokenBlacklist)))
   \<and> (redisClient = Some c \<and> isOpen c \<and> get c (''blacklist:'' @ j) = Inr result
     \<longrightarrow> isTokenBlacklisted redisClient tokenBlacklist j = (result \<noteq> None)
         \<and> (truthy (extractToken req)
              \<and> jwt_verify lib (str_of (extractToken req)) (JWT_SECRET e) now = Inr d
              \<and> jti d = Some j \<and> j \<noteq> []
            \<longrightarrow> (protect lib e redisClient tokenBlacklist findById now now' req = Inl Revoked)
                  = (result \<noteq> None)))"
proof -
  have a: "isTokenBlacklisted redisClient tokenBlacklist j = (j \<in> tokenBlacklist)"
    if "redisClient = None
          \<or> (\<exists>c. redisClient = Some c
                 \<and> (\<not> isOpen c \<or> isl (get c (''blacklist:'' @ j))))"
    using that by (auto simp: isTokenBlacklisted_def split: option.splits sum.splits)
  have b: "isTokenBlacklisted redisClient tokenBlacklist j = (result \<noteq> None)"
    if "redisClient = Some c" and "isOpen c" and "get c (''blacklist:'' @ j) = Inr result"
    using that by (simp add: isTokenBlacklisted_def)
  have p: "(protect lib e redisClient tokenBlacklist findById now now' req = Inl Revoked)
             = isTokenBlacklisted redisClient tokenBlacklist j"
    if "truthy (extractToken req)"
      and "jwt_verify lib (str_of (extractToken req)) (JWT_SECRET e) now = Inr d"
      and "jti d = Some j" and "j \<noteq> []"
    using that by (rule protect_revoked_iff)
  from a b p show ?thesis by blast
qed

theorem isTokenBlacklisted_fallback_witness:
  "isTokenBlacklisted (Some failing_redis) {''j1''} ''j1''
   \<and> protect sample_lib sample_env (Some failing_redis) {''j1''}
       (sample_db (Some sample_user)) 6000 6000 sample_request = Inl Revoked
   \<and> \<not> isTokenBlacklisted (Some failing_redis) {''j2''} ''j1''
   \<and> protect sample_lib sample_env (Some failing_redis) {''j2''}
       (sample_db (Some sample_user)) 6000 6000 sample_request \<noteq> Inl Revoked
   \<and> \<not> isTokenBlacklisted None {} ''j1''
   \<and> isTokenBlacklisted (Some (failing_redis\<lparr>get := (\<lambda>k. Inr (Some ''true''))\<rparr>)) {} ''j1''
   \<and> protect sample_lib sample_env (Some (failing_redis\<lparr>get := (\<lambda>k. Inr (Some ''true''))\<rparr>)) {}
       (sample_db (Some sample_user)) 6000 6000 sample_request = Inl Revoked"
proof -
  note t = isTokenBlacklisted_fallback
    [where j = "''j1''" and req = sample_request and lib = sample_lib and e = sample_env
       and now = 6000 and now' = 6000 and d = "payload sample_jwt"
       and findById = "sample_db (Some sample_user)"]
  have v: "truthy (extractToken sample_request)"
    "jwt_verify sample_lib (str_of (extractToken sample_request)) (JWT_SECRET sample_env) 6000
       = Inr (payload sample_jwt)"
    "jti (payload sample_jwt) = Some ''j1''"
    by (simp_all add: sample_extract sample_verify sample_payload)
  have 1: "isTokenBlacklisted (Some failing_redis) {''j1''} ''j1''
     \<and> protect sample_lib sample_env (Some failing_redis) {''j1''}
         (sample_db (Some sample_user)) 6000 6000 sample_request = Inl Revoked"
    using t [where redisClient = "Some failing_redis" and tokenBlacklist = "{''j1''}"
        and c = failing_redis and result = None] v
    by (simp add: failing_redis_def)
  have 2: "\<not> isTokenBlacklisted (Some failing_redis) {''j2''} ''j1''
     \<and> protect sample_lib sample_env (Some failing_redis) {''j2''}
         (sample_db (Some sample_user)) 6000 6000 sample_request \<noteq> Inl Revoked"
    using t [where redisClient = "Some failing_redis" and tokenBlacklist = "{''j2''}"
        and c = failing_redis and result = None] v
    by (simp add: failing_redis_def)
  have 3: "\<not> isTokenBlacklisted None {} ''j1''"
    using t [where redisClient = None and tokenBlacklist = "{}"
        and c = failing_redis and result = None]
    by simp
  have 4: "isTokenBlacklisted (Some (failing_redis\<lparr>get := (\<lambda>k. Inr (Some ''true''))\<rparr>)) {} ''j1''
     \<and> protect sample_lib sample_env
         (Some (failing_redis\<lparr>get := (\<lambda>k. Inr (Some ''true''))\<rparr>)) {}
         (sample_db (Some sample_user)) 6000 6000 sample_request = Inl Revoked"
    using t [where redisClient = "Some (failing_redis\<lparr>get := (\<lambda>k. Inr (Some ''true''))\<rparr>)"
        and tokenBlacklist = "{}"
        and c = "failing_redis\<lparr>get := (\<lambda>k. Inr (Some ''true''))\<rparr>"
        and result = "Some ''true''"] v
    by (simp add: failing_redis_def)
  from 1 2 3 4 show ?thesis by blast
qed

section \<open>Optional verification\<close>

text \<open>
  C2. \<open>optionalAuth\<close> is claimed to attach a user exactly when \<open>protect\<close> would succeed.
  On the sample request it attaches the user although \<open>protect\<close> rejects the same
  request state: with the credential's identifier revoked (Revoked), with the user's role
  deactivated (RoleDisabled), and with the password changed after the credential was issued
  (Stale).
\<close>

theorem optionalAuth_skips_checks:
  "protect sample_lib sample_env None {''j1''} (sample_db (Some sample_user)) 6000 6000
     sample_request = Inl Revoked
   \<and> optionalAuth sample_lib sample_env (sample_db (Some sample_user)) 6000 sample_request
       = Inr (Some sample_user)
   \<and> protect sample_lib sample_env None {}
       (sample_db (Some (sample_user\<lparr>role := Some (sample_role\<lparr>isActive := False\<rparr>)\<rparr>)))
       6000 6000 sample_request = Inl RoleDisabled
   \<and> optionalAuth sample_lib sample_env
       (sample_db (Some (sample_user\<lparr>role := Some (sample_role\<lparr>isActive := False\<rparr>)\<rparr>)))
       6000 sample_request
       = Inr (Some (sample_user\<lparr>role := Some (sample_role\<lparr>isActive := False\<rparr>)\<rparr>))
   \<and> protect sample_lib sample_env None {}
       (sample_db (Some (sample_user\<lparr>passwordChangedAt := Some 9000000\<rparr>)))
       6000 6000 sample_request = Inl Stale
   \<and> optionalAuth sample_lib sample_env
       (sample_db (Some (sample_user\<lparr>passwordChangedAt := Some 9000000\<rparr>)))
       6000 sample_request
       = Inr (Some (sample_user\<lparr>passwordChangedAt := Some 9000000\<rparr>))"
  by (simp add: protect_verified optionalAuth_def sample_extract sample_verify sample_payload
      isTokenBlacklisted_def sample_db_def sample_user_def sample_role_def
      changedPasswordAfter_def parseInt_div_def)

text \<open>
  The other direction holds: whenever \<open>protect\<close> succeeds, \<open>optionalAuth\<close> attaches the
  same user; and \<open>optionalAuth\<close> never passes an error on.
\<close>

lemma protect_implies_optionalAuth:
  assumes "protect lib e redisClient tokenBlacklist findById now now' req = Inr ok"
  shows "optionalAuth lib e findById now req = Inr (Some (req_user ok))"
  using assms
  by (auto simp: protect_def optionalAuth_def Let_def
      split: if_splits sum.splits jwt_error.splits option.splits)

lemma optionalAuth_never_rejects: "\<not> isl (optionalAuth lib e findById now req)"
  by (simp add: optionalAuth_def Let_def split: sum.splits option.splits)

section \<open>Password change and stale credentials\<close>

lemma pre_save_changed:
  assumes "pre_save hash now_save True False u = Inr u'"
  shows "passwordChangedAt u' = Some (now_save - 1000)"
    and "accountStatus u' = accountStatus u" and "role u' = role u" and "uid u' = uid u"
  using assms by (auto simp: pre_save_def split: sum.splits)

lemma changedPasswordAfter_saved:
  assumes "pre_save hash now_save True False u = Inr u'"
  shows "changedPasswordAfter u' ts = (ts < parseInt_div (now_save - 1000) 1000)"
  using pre_save_changed(1) [OF assms] by (simp add: changedPasswordAfter_def)

lemma parseInt_div_before: "t + 2000 \<le> now_save \<Longrightarrow> t div 1000 < parseInt_div (now_save - 1000) 1000"
  unfolding parseInt_div_def by auto

lemma parseInt_div_after: "now_save \<le> t \<Longrightarrow> parseInt_div (now_save - 1000) 1000 \<le> t div 1000"
  unfolding parseInt_div_def by auto

text \<open>
  C4. Saving an existing user with a changed password stores \<open>passwordChangedAt\<close> as the
  save time minus one second, and the staleness check compares the credential's issued-at
  (in whole seconds) with that stored time cut to whole seconds. So a credential is stale
  exactly when its issued-at is strictly before the stored change time in whole seconds:
  every credential issued two seconds or more before the save is stale, every credential
  issued at or after the save is not, and for a credential that passes the earlier checks
  \<open>protect\<close> fails, with the Stale error, exactly when the credential is stale.
\<close>

theorem password_change_invalidates:
  assumes "pre_save hash now_save True False u = Inr u'"
  shows
    "passwordChangedAt u' = Some (now_save - 1000)
     \<and> changedPasswordAfter u' ts = (ts < parseInt_div (now_save - 1000) 1000)
     \<and> (t + 2000 \<le> now_save \<longrightarrow> changedPasswordAfter u' (t div 1000))
     \<and> (now_save \<le> t \<longrightarrow> \<not> changedPasswordAfter u' (t div 1000))
     \<and> (truthy (extractToken req)
          \<and> jwt_verify lib (str_of (extractToken req)) (JWT_SECRET e) now = Inr d
          \<and> \<not> (case jti d of
                   None \<Rightarrow> False
                 | Some j \<Rightarrow> j \<noteq> [] \<and> isTokenBlacklisted redisClient tokenBlacklist j)
          \<and> findById (jwt_id d) = Inr (Some u')
          \<and> accountStatus u' = ACTIVE \<and> role u' = Some r \<and> isActive r
        \<longrightarrow> (protect lib e redisClient tokenBlacklist findById now now' req = Inl Stale)
              = (iat d < parseInt_div (now_save - 1000) 1000)
            \<and> isl (protect lib e redisClient tokenBlacklist findById now now' req)
              = (iat d < parseInt_div (now_save - 1000) 1000))"
proof -
  note c = changedPasswordAfter_saved [OF assms]
  have 1: "changedPasswordAfter u' ts = (ts < parseInt_div (now_save - 1000) 1000)"
    by (rule c)
  have 2: "t + 2000 \<le> now_save \<longrightarrow> changedPasswordAfter u' (t div 1000)"
    using parseInt_div_before [of t now_save] by (auto simp: c)
  have 3: "now_save \<le> t \<longrightarrow> \<not> changedPasswordAfter u' (t div 1000)"
    using parseInt_div_after [of now_save t] by (auto simp: c)
  have 4: "(protect lib e redisClient tokenBlacklist findById now now' req = Inl Stale)
              = (iat d < parseInt_div (now_save - 1000) 1000)
            \<and> isl (protect lib e redisClient tokenBlacklist findById now now' req)
              = (iat d < parseInt_div (now_save - 1000) 1000)"
    if "truthy (extractToken req)"
      and "jwt_verify lib (str_of (extractToken req)) (JWT_SECRET e) now = Inr d"
      and "\<not> (case jti d of
                   None \<Rightarrow> False
                 | Some j \<Rightarrow> j \<noteq> [] \<and> isTokenBlacklisted redisClient tokenBlacklist j)"
      and "findById (jwt_id d) = Inr (Some u')"
      and "accountStatus u' = ACTIVE" and "role u' = Some r" and "isActive r"
    using that by (simp add: protect_verified c)
  from pre_save_changed(1) [OF assms] 1 2 3 4 show ?thesis by blast
qed

theorem password_change_invalidates_witness:
  "pre_save (\<lambda>p. Inr (''#'' @ p)) 10000 True False sample_user
     = Inr (sample_user\<lparr>password := ''#hash0'', passwordChangedAt := Some 9000\<rparr>)
   \<and> changedPasswordAfter (sample_user\<lparr>password := ''#hash0'', passwordChangedAt := Some 9000\<rparr>) 8
   \<and> \<not> changedPasswordAfter
         (sample_user\<lparr>password := ''#hash0'', passwordChangedAt := Some 9000\<rparr>) 9
   \<and> \<not> changedPasswordAfter
         (sample_user\<lparr>password := ''#hash0'', passwordChangedAt := Some 9000\<rparr>) 10
   \<and> protect sample_lib sample_env None {}
        (sample_db (Some (sample_user\<lparr>password := ''#hash0'', passwordChangedAt := Some 9000\<rparr>)))
        6000 6000 sample_request = Inl Stale"
proof -
  let ?u = "sample_user\<lparr>password := ''#hash0'', passwordChangedAt := Some 9000\<rparr>"
  have s: "pre_save (\<lambda>p. Inr (''#'' @ p)) 10000 True False sample_user = Inr ?u"
    by (simp add: pre_save_def sample_user_def)
  note w = password_change_invalidates
    [OF s, where req = sample_request and lib = sample_lib and e = sample_env
       and now = 6000 and d = "payload sample_jwt" and redisClient = None
       and tokenBlacklist = "{}" and findById = "sample_db (Some ?u)" and r = sample_role
       and now' = 6000]
  have a: "changedPasswordAfter ?u 8"
    using w [where ts = 8 and t = 8000] by (simp add: parseInt_div_def)
  have b: "\<not> changedPasswordAfter ?u 9"
    using w [where ts = 9 and t = 9000] by (simp add: parseInt_div_def)
  have c: "\<not> changedPasswordAfter ?u 10"
    using w [where ts = 10 and t = 10000] by (simp add: parseInt_div_def)
  have d: "protect sample_lib sample_env None {} (sample_db (Some ?u)) 6000 6000 sample_request
             = Inl Stale"
    using w [where ts = 8 and t = 8000]
    by (simp add: sample_extract sample_verify sample_payload isTokenBlacklisted_def
        sample_db_def sample_user_def sample_role_def parseInt_div_def)
  from s a b c d show ?thesis by blast
qed

section \<open>Issuing and verifying\<close>

lemma parseInt_div_le:
  assumes "0 \<le> now" and "t \<le> now"
  shows "parseInt_div t 1000 \<le> now div 1000"
proof (cases "0 \<le> t")
  case True
  with assms show ?thesis
    by (simp add: parseInt_div_def zdiv_mono1)
next
  case False
  then have "0 \<le> (- t) div 1000"
    by (simp add: pos_imp_zdiv_nonneg_iff)
  moreover from assms have "0 \<le> now div 1000"
    by (simp add: pos_imp_zdiv_nonneg_iff)
  ultimately show ?thesis
    using False by (simp add: parseInt_div_def)
qed

text \<open>
  C5. For every subject and role, \<open>signToken\<close> (with the access secret set and a valid
  lifetime configured) returns a credential, and \<open>protect\<close> on a request that carries this
  credential succeeds and yields the user found for the subject id together with the
  decoded credential, whose subject id and role are the ones that were issued. This holds
  while the credential is unexpired and not revoked, the identity exists, is ACTIVE, has an
  active role, and has not changed its password since the credential was issued; the
  serialisation of the token library is taken to read back what it wrote.
\<close>

theorem protect_signToken_roundtrip:
  fixes lib :: jwt_lib and e :: env and userId r j k :: string and span now :: int
  defines "c \<equiv> jwt_content userId r j k span
                  (env_or (JWT_ISSUER e) ''hotel-management-api'')
                  (env_or (JWT_AUDIENCE e) ''hotel-management-client'') now"
  assumes secret: "JWT_SECRET e = Some k" "k \<noteq> []"
    and span: "ms lib (env_or (JWT_EXPIRES_IN e) ''15m'') = Some span"
    and codec: "decode lib (encode lib c) = Some c"
    and carried: "extractToken req = JStr (encode lib c)" "encode lib c \<noteq> []"
    and unexpired: "now_v div 1000 < now div 1000 + span div 1000"
    and not_revoked: "\<not> isTokenBlacklisted redisClient tokenBlacklist j"
    and found: "findById userId = Inr (Some u)"
    and active: "accountStatus u = ACTIVE" "role u = Some rd" "isActive rd"
    and unchanged: "0 \<le> now" "case passwordChangedAt u of None \<Rightarrow> True | Some t \<Rightarrow> t \<le> now"
  shows "signToken lib e j now userId r = Inr (encode lib c, j)
     \<and> \<not> isl (protect lib e redisClient tokenBlacklist findById now_v now_h req)
     \<and> req_user (projr (protect lib e redisClient tokenBlacklist findById now_v now_h req)) = u
     \<and> jwt_id (token_decoded
          (projr (protect lib e redisClient tokenBlacklist findById now_v now_h req))) = userId
     \<and> jwt_role (token_decoded
          (projr (protect lib e redisClient tokenBlacklist findById now_v now_h req))) = r"
proof -
  have sign: "signToken lib e j now userId r = Inr (encode lib c, j)"
    using secret span by (simp add: signToken_def jwt_sign_def c_def)
  have p: "jwt_id (payload c) = userId" "jwt_role (payload c) = r" "jti (payload c) = Some j"
    "iat (payload c) = now div 1000" "exp (payload c) = now div 1000 + span div 1000"
    "sig_key c = k"
    by (simp_all add: c_def jwt_content_def)
  have t: "truthy (extractToken req)"
    using carried by simp
  have v: "jwt_verify lib (str_of (extractToken req)) (JWT_SECRET e) now_v = Inr (payload c)"
    using carried codec secret unexpired by (simp add: jwt_verify_def p)
  have fresh: "\<not> changedPasswordAfter u (iat (payload c))"
  proof (cases "passwordChangedAt u")
    case None
    then show ?thesis by (simp add: changedPasswordAfter_def)
  next
    case (Some t)
    with unchanged have "parseInt_div t 1000 \<le> now div 1000"
      by (simp add: parseInt_div_le)
    with Some show ?thesis by (simp add: changedPasswordAfter_def p)
  qed
  have "protect lib e redisClient tokenBlacklist findById now_v now_h req =
          Inr \<lparr>req_user = u, token_raw = str_of (extractToken req),
               token_decoded = payload c,
               refreshHint = (3 * (exp (payload c) - iat (payload c))
                               < 4 * (now_h div 1000 - iat (payload c)))\<rparr>"
    unfolding protect_verified [OF t v]
    using not_revoked found active fresh by (simp add: p)
  with sign p show ?thesis by simp
qed

theorem protect_signToken_roundtrip_witness:
  "signToken sample_lib sample_env ''j1'' 5000 ''u1'' ''MANAGER'' = Inr (''u1.s3cret'', ''j1'')
   \<and> \<not> isl (protect sample_lib sample_env None {} (sample_db (Some sample_user)) 6000 6000
              sample_request)
   \<and> req_user (projr (protect sample_lib sample_env None {} (sample_db (Some sample_user))
                        6000 6000 sample_request)) = sample_user
   \<and> jwt_id (token_decoded
        (projr (protect sample_lib sample_env None {} (sample_db (Some sample_user))
                  6000 6000 sample_request))) = ''u1''
   \<and> jwt_role (token_decoded
        (projr (protect sample_lib sample_env None {} (sample_db (Some sample_user))
                  6000 6000 sample_request))) = ''MANAGER''"
proof -
  have enc: "encode sample_lib sample_jwt = ''u1.s3cret''"
    by (simp add: sample_lib_def sample_jwt_def jwt_content_def)
  have c: "jwt_content ''u1'' ''MANAGER'' ''j1'' ''s3cret'' 900000
             (env_or (JWT_ISSUER sample_env) ''hotel-management-api'')
             (env_or (JWT_AUDIENCE sample_env) ''hotel-management-client'') 5000 = sample_jwt"
    by (simp add: sample_jwt_def sample_env_def env_or_def)
  show ?thesis
    using protect_signToken_roundtrip
      [where lib = sample_lib and e = sample_env and userId = "''u1''" and r = "''MANAGER''"
         and j = "''j1''" and k = "''s3cret''" and span = 900000 and now = 5000
         and req = sample_request and now_v = 6000 and now_h = 6000
         and redisClient = None and tokenBlacklist = "{}"
         and findById = "sample_db (Some sample_user)" and u = sample_user
         and rd = sample_role]
    unfolding c enc
    by (simp add: sample_extract sample_env_def env_or_def sample_lib_def
        isTokenBlacklisted_def sample_db_def sample_user_def sample_role_def)
qed

end
